theory Spec2Isabelle
  imports
    Complex_Main
    "HOL-Library.AList"
    "HOL-Library.Char_ord"
    "HOL-Library.List_Lexorder"
    "HOL-Library.Product_Lexorder"
    "HOL-Library.Multiset"
begin

section \<open>Values, errors and rounding\<close>

text \<open>
  The two programs (\<^verbatim>\<open>pollution_data_cleaner_gui.py\<close> and
  \<^verbatim>\<open>format_by_location.py\<close>) transform pandas tables. A table cell is a
  missing value (\<open>NaN\<close>, \<open>None\<close>, \<open>NaT\<close>), a number, a string, or a calendar
  date (the \<open>datetime.date\<close> objects that \<^verbatim>\<open>.dt.date\<close> produces, kept as a day
  number). Numbers are exact rationals: the decimal reading of the measurements. The
  representation error of binary64 and the infinite floats are outside this model.
\<close>

datatype cell = NA | Num rat | Str string | Day int

text \<open>
  The Python exceptions that the modelled code can raise (\<open>ReError\<close> is
  \<^verbatim>\<open>re.error\<close>), and \<open>OutsideModel\<close>, which is not an exception: it marks the
  inputs of the reshaper for which this model does not say what pandas does.
\<close>

datatype error =
    IndexError
  | KeyError string
  | ValueError string
  | TypeError
  | ReError
  | OutsideModel

text \<open>
  \<^verbatim>\<open>rint\<close>: the nearest integer, a tie going to the even neighbour. Both
  \<^verbatim>\<open>Series.round(3)\<close> (numpy: multiply by 1000, \<^verbatim>\<open>rint\<close>, divide by 1000)
  and Python's \<^verbatim>\<open>round(x, 3)\<close> round half to even.
\<close>

definition rint :: "rat \<Rightarrow> int" where
  "rint x =
     (let f = \<lfloor>x\<rfloor>; d = x - of_int f in
      if d < 1 / 2 then f
      else if 1 / 2 < d then f + 1
      else if even f then f else f + 1)"

definition round3 :: "rat \<Rightarrow> rat" where
  "round3 x = of_int (rint (x * 1000)) / 1000"

text \<open>A numeric series holds numbers and \<open>NaN\<close>; rounding leaves \<open>NaN\<close> alone.\<close>

definition round3_opt :: "rat option \<Rightarrow> rat option" where
  "round3_opt v = map_option round3 v"

section \<open>The labeler of \<^verbatim>\<open>format_by_location.py\<close>\<close>

text \<open>
  \<^verbatim>\<open>
  def make_pollutant_labels(unique_pollutants, use_abc=True):
      labels = {}
      abc = ["A","B","C","D","E","F","G","H"]
      for i, p in enumerate(sorted(unique_pollutants)):
          if use_abc:
              key = f"Pollutant {abc[i]} ({p})"
          else:
              key = p
          labels[p] = key
      return labels
  \<close>
  The dictionary is an association list in insertion order; \<open>labels[p] = key\<close> is
  \<^const>\<open>AList.update\<close> (a present key keeps its place, a new one goes last).
  \<open>abc[i]\<close> raises \<open>IndexError\<close> from \<open>i = 8\<close> on, which ends the loop and
  the function. Strings are ordered as Python orders them, character by character.
\<close>

definition abc :: "string list" where
  "abc = [''A'', ''B'', ''C'', ''D'', ''E'', ''F'', ''G'', ''H'']"

definition abc_label :: "nat \<Rightarrow> string \<Rightarrow> string" where
  "abc_label i p = ''Pollutant '' @ abc ! i @ '' ('' @ p @ '')''"

fun label_loop ::
  "bool \<Rightarrow> (nat \<times> string) list \<Rightarrow> (string \<times> string) list \<Rightarrow> error + (string \<times> string) list"
where
  "label_loop use_abc [] labels = Inr labels"
| "label_loop use_abc ((i, p) # rest) labels =
     (if use_abc then
        (if i < length abc
         then label_loop use_abc rest (AList.update p (abc_label i p) labels)
         else Inl IndexError)
      else label_loop use_abc rest (AList.update p p labels))"

definition make_pollutant_labels :: "string list \<Rightarrow> bool \<Rightarrow> error + (string \<times> string) list" where
  "make_pollutant_labels unique_pollutants use_abc =
     label_loop use_abc (enumerate 0 (sort unique_pollutants)) []"

section \<open>Tables\<close>

text \<open>
  A pandas \<open>DataFrame\<close>: the column labels in order, and the rows, each a list of
  cells in the order of the columns. Two invariants of the tables that
  \<^verbatim>\<open>pd.read_csv\<close> returns are assumed by the operations below: every row has one
  cell per column, and no column label occurs twice (\<^verbatim>\<open>read_csv\<close> renames a
  repeated header).
\<close>

record dataframe =
  columns :: "string list"
  rows :: "cell list list"


text \<open>The cell of row \<open>r\<close> under the column labelled \<open>c\<close>.\<close>

definition cell_at :: "string list \<Rightarrow> cell list \<Rightarrow> string \<Rightarrow> cell" where
  "cell_at cols r c = (case map_of (zip cols r) c of Some v \<Rightarrow> v | None \<Rightarrow> NA)"

text \<open>The cells of row \<open>r\<close> under the columns \<open>cols\<close>: its key for a grouping.\<close>

definition row_key :: "dataframe \<Rightarrow> string list \<Rightarrow> cell list \<Rightarrow> cell list" where
  "row_key df cols r = map (cell_at (columns df) r) cols"

text \<open>\<^verbatim>\<open>df[c]\<close>: one column, or \<open>KeyError\<close>.\<close>

definition getitem :: "dataframe \<Rightarrow> string \<Rightarrow> error + cell list" where
  "getitem df c =
     (if c \<in> set (columns df) then Inr (map (\<lambda>r. cell_at (columns df) r c) (rows df))
      else Inl (KeyError c))"

text \<open>\<^verbatim>\<open>df[cs]\<close> for a list of labels: those columns in that order, or \<open>KeyError\<close>.\<close>

definition select_cols :: "dataframe \<Rightarrow> string list \<Rightarrow> error + dataframe" where
  "select_cols df cs =
     (case filter (\<lambda>c. c \<notin> set (columns df)) cs of
        [] \<Rightarrow> Inr \<lparr>columns = cs, rows = map (\<lambda>r. map (cell_at (columns df) r) cs) (rows df)\<rparr>
      | c # _ \<Rightarrow> Inl (KeyError c))"

text \<open>\<^verbatim>\<open>df[mask]\<close> for a boolean series: the rows whose mask is true.\<close>

definition select_rows :: "dataframe \<Rightarrow> bool list \<Rightarrow> dataframe" where
  "select_rows df keep = df\<lparr>rows := map fst (filter snd (zip (rows df) keep))\<rparr>"



text \<open>\<^verbatim>\<open>df[c] = values\<close> for a column that exists.\<close>

definition set_col :: "dataframe \<Rightarrow> string \<Rightarrow> cell list \<Rightarrow> dataframe" where
  "set_col df c vals =
     df\<lparr>rows := map (\<lambda>(v, r). map (\<lambda>(c', x). if c' = c then v else x) (zip (columns df) r))
                     (zip vals (rows df))\<rparr>"

section \<open>Library behaviour left open\<close>

text \<open>
  What the programs delegate to Python and pandas parsers and printers is a
  parameter of the model; every theorem holds for each instance.
  \<^item> \<open>float_of\<close>: Python's \<^verbatim>\<open>float(s)\<close>; \<open>None\<close> is its \<open>ValueError\<close>.
  \<^item> \<open>to_numeric_str\<close>: what \<^verbatim>\<open>pd.to_numeric(..., errors='coerce')\<close> makes of one
    string; \<open>None\<close> is \<open>NaN\<close>.
  \<^item> \<open>to_date\<close>: what \<^verbatim>\<open>pd.to_datetime(..., errors='coerce').dt.date\<close> makes of one
    cell; \<open>None\<close> is \<open>NaT\<close>.
  \<^item> \<open>str_contains\<close>: the case-insensitive regular-expression search of
    \<^verbatim>\<open>Series.str.contains(keyword, case=False, na=False)\<close>; \<open>None\<close> when the keyword
    does not compile.
  \<^item> \<open>str_of\<close>: Python's \<^verbatim>\<open>str(x)\<close> of a cell value.
  \<^item> \<open>round_object_raises\<close>: whether \<^verbatim>\<open>Series.round\<close> raises \<open>TypeError\<close> on a
    column that holds strings (pandas 1 and 3) or returns it unchanged (pandas 2).
\<close>

datatype pyfloat = Fin rat | PInf | NInf | NaN

record pylib =
  float_of :: "string \<Rightarrow> pyfloat option"
  to_numeric_str :: "string \<Rightarrow> rat option"
  to_date :: "cell \<Rightarrow> int option"
  str_contains :: "string \<Rightarrow> (string \<Rightarrow> bool) option"
  str_of :: "cell \<Rightarrow> string"
  round_object_raises :: bool

text \<open>\<^verbatim>\<open>pd.to_numeric(series, errors='coerce')\<close>, one cell at a time.\<close>

definition to_numeric :: "pylib \<Rightarrow> cell \<Rightarrow> rat option" where
  "to_numeric L c =
     (case c of Num x \<Rightarrow> Some x | Str s \<Rightarrow> to_numeric_str L s | NA \<Rightarrow> None | Day d \<Rightarrow> None)"

definition num_cell :: "rat option \<Rightarrow> cell" where
  "num_cell v = (case v of Some x \<Rightarrow> Num x | None \<Rightarrow> NA)"

text \<open>\<^verbatim>\<open>pd.to_numeric(df[col], errors='coerce').round(3)\<close> on one cell.\<close>

definition numeric_round3 :: "pylib \<Rightarrow> cell \<Rightarrow> cell" where
  "numeric_round3 L c = num_cell (round3_opt (to_numeric L c))"

text \<open>Python's \<^verbatim>\<open>str.strip()\<close> and \<^verbatim>\<open>str.lower()\<close> on ASCII text.\<close>

definition is_space :: "char \<Rightarrow> bool" where
  "is_space c \<longleftrightarrow> c \<in> set [CHR '' '', CHR 0x09, CHR 0x0A, CHR 0x0B, CHR 0x0C, CHR 0x0D,
                              CHR 0x1C, CHR 0x1D, CHR 0x1E, CHR 0x1F]"

definition py_strip :: "string \<Rightarrow> string" where
  "py_strip s = rev (dropWhile is_space (rev (dropWhile is_space s)))"

definition py_lower :: "string \<Rightarrow> string" where
  "py_lower s =
     map (\<lambda>c. if CHR ''A'' \<le> c \<and> c \<le> CHR ''Z'' then char_of (of_char c + (32::nat)) else c) s"

text \<open>\<^verbatim>\<open>s.split(d)\<close> for a one-character separator: at least one piece.\<close>

fun split_on :: "char \<Rightarrow> string \<Rightarrow> string list" where
  "split_on d [] = [[]]"
| "split_on d (c # cs) =
     (if c = d then [] # split_on d cs
      else (case split_on d cs of w # ws \<Rightarrow> (c # w) # ws | [] \<Rightarrow> [[c]]))"




section \<open>The cleaner: \<^verbatim>\<open>pollution_data_cleaner_gui.py\<close>\<close>


datatype filter_target = Column string | Columns "string list"

definition FILTER_MAP :: "(string \<times> filter_target) list" where
  "FILTER_MAP = [(''state'', Column ''State Name''),
                 (''city'', Column ''City Name''),
                 (''county'', Column ''County Name''),
                 (''site'', Column ''Site Num''),
                 (''coordinates'', Columns [''Latitude'', ''Longitude''])]"


subsection \<open>\<^verbatim>\<open>clean_and_label_dataframe\<close>\<close>







subsection \<open>\<^verbatim>\<open>filter_data\<close>\<close>

text \<open>
  \<^verbatim>\<open>
  def filter_data(df, keyword_type, keyword):
      kt = (keyword_type or "").strip().lower()
      if kt == "coordinates":
          try:
              lat_str, lon_str = [x.strip() for x in keyword.split(",")]
              lat, lon = float(lat_str), float(lon_str)
              return df[(df["Latitude"].round(3) == round(lat, 3)) &
                        (df["Longitude"].round(3) == round(lon, 3))]
          except Exception:
              messagebox.showerror("Error", "Invalid coordinate format. Use: 39.290, -76.610")
              return df
      else:
          col = FILTER_MAP.get(kt)
          if isinstance(col, str) and col in df.columns:
              return df[df[col].astype(str).str.contains(keyword, case=False, na=False)]
          return df
  \<close>
  The function returns a table or raises; the dialogs it opens are returned beside
  the result. \<open>parse_coordinates\<close> is the first two lines of the \<open>try\<close> block,
  \<open>coordinates_filter\<close> the whole block, with each exception as an \<open>Inl\<close>.
\<close>

datatype message = ShowError string string

definition parse_coordinates :: "pylib \<Rightarrow> string \<Rightarrow> error + pyfloat \<times> pyfloat" where
  "parse_coordinates L keyword =
     (case map py_strip (split_on CHR '','' keyword) of
        [lat_str, lon_str] \<Rightarrow>
          (case float_of L lat_str of
             None \<Rightarrow> Inl (ValueError ''could not convert string to float'')
           | Some lat \<Rightarrow>
              (case float_of L lon_str of
                 None \<Rightarrow> Inl (ValueError ''could not convert string to float'')
               | Some lon \<Rightarrow> Inr (lat, lon)))
      | [] \<Rightarrow> Inl (ValueError ''not enough values to unpack (expected 2, got 0)'')
      | [x] \<Rightarrow> Inl (ValueError ''not enough values to unpack (expected 2, got 1)'')
      | _ \<Rightarrow> Inl (ValueError ''too many values to unpack (expected 2)''))"

text \<open>Python's \<^verbatim>\<open>round(x, 3)\<close>: infinities and \<open>nan\<close> are returned as they are.\<close>

definition py_round3 :: "pyfloat \<Rightarrow> pyfloat" where
  "py_round3 x = (case x of Fin q \<Rightarrow> Fin (round3 q) | _ \<Rightarrow> x)"

definition is_numeric :: "cell \<Rightarrow> bool" where
  "is_numeric c = (case c of NA \<Rightarrow> True | Num x \<Rightarrow> True | _ \<Rightarrow> False)"

definition round3_cell :: "cell \<Rightarrow> cell" where
  "round3_cell c = (case c of Num x \<Rightarrow> Num (round3 x) | _ \<Rightarrow> c)"

text \<open>\<^verbatim>\<open>series.round(3)\<close> on a column as it stands in the table.\<close>

definition series_round :: "pylib \<Rightarrow> cell list \<Rightarrow> error + cell list" where
  "series_round L vals =
     (if list_all is_numeric vals then Inr (map round3_cell vals)
      else if round_object_raises L then Inl TypeError
      else Inr vals)"

text \<open>\<^verbatim>\<open>series == x\<close> for a float \<open>x\<close>, on one cell.\<close>

definition eq_float :: "cell \<Rightarrow> pyfloat \<Rightarrow> bool" where
  "eq_float c x = (case (c, x) of (Num a, Fin b) \<Rightarrow> a = b | _ \<Rightarrow> False)"

definition coordinates_filter :: "pylib \<Rightarrow> dataframe \<Rightarrow> string \<Rightarrow> error + dataframe" where
  "coordinates_filter L df keyword =
     (case parse_coordinates L keyword of
        Inl e \<Rightarrow> Inl e
      | Inr (lat, lon) \<Rightarrow>
         (case getitem df ''Latitude'' of
            Inl e \<Rightarrow> Inl e
          | Inr lats \<Rightarrow>
             (case series_round L lats of
                Inl e \<Rightarrow> Inl e
              | Inr rlats \<Rightarrow>
                 (case getitem df ''Longitude'' of
                    Inl e \<Rightarrow> Inl e
                  | Inr lons \<Rightarrow>
                     (case series_round L lons of
                        Inl e \<Rightarrow> Inl e
                      | Inr rlons \<Rightarrow>
                          Inr (select_rows df
                                 (map (\<lambda>(a, b). eq_float a (py_round3 lat) \<and>
                                                 eq_float b (py_round3 lon))
                                    (zip rlats rlons))))))))"

definition invalid_coordinates :: message where
  "invalid_coordinates = ShowError ''Error'' ''Invalid coordinate format. Use: 39.290, -76.610''"

definition filter_data ::
  "pylib \<Rightarrow> dataframe \<Rightarrow> string option \<Rightarrow> string \<Rightarrow> (error + dataframe) \<times> message list"
where
  "filter_data L df keyword_type keyword =
     (let kt = py_lower (py_strip (case keyword_type of Some s \<Rightarrow> s | None \<Rightarrow> []))
      in if kt = ''coordinates'' then
           (case coordinates_filter L df keyword of
              Inr res \<Rightarrow> (Inr res, [])
            | Inl e \<Rightarrow> (Inr df, [invalid_coordinates]))
         else
           (case map_of FILTER_MAP kt of
              Some (Column col) \<Rightarrow>
                (if col \<in> set (columns df) then
                   (case str_contains L keyword of
                      None \<Rightarrow> (Inl ReError, [])
                    | Some matches \<Rightarrow>
                        (Inr (select_rows df
                                (map (\<lambda>r. matches (str_of L (cell_at (columns df) r col)))
                                   (rows df))), []))
                 else (Inr df, []))
            | _ \<Rightarrow> (Inr df, [])))"

section \<open>The reshaper: \<^verbatim>\<open>format_by_location.py\<close>\<close>

text \<open>
  \<^verbatim>\<open>
  def coalesce_cols(df, candidates, default=None):
      for c in candidates:
          if c in df.columns:
              return c
      return default
  \<close>
\<close>

definition coalesce_cols :: "dataframe \<Rightarrow> string list \<Rightarrow> string option \<Rightarrow> string option" where
  "coalesce_cols df candidates dflt =
     (case find (\<lambda>c. c \<in> set (columns df)) candidates of Some c \<Rightarrow> Some c | None \<Rightarrow> dflt)"

subsection \<open>\<^verbatim>\<open>pivot_table\<close> and \<^verbatim>\<open>reset_index\<close>\<close>

text \<open>
  \<^verbatim>\<open>df.pivot_table(index=index, columns=pcol, values=vcol, aggfunc="mean")\<close>
  with the defaults \<open>dropna=True\<close> and \<open>sort=True\<close>, as pandas computes it:
  \<^enum> \<open>KeyError\<close> for a label that is not a column;
  \<^enum> \<^verbatim>\<open>data.groupby(index + [pcol])\<close> leaves out every row with a missing
    value in one of the keys (\<open>dropna=True\<close> is the default of \<open>groupby\<close>);
  \<^enum> \<^verbatim>\<open>.agg("mean")\<close> gives each group the mean of its values that are not
    missing, and \<open>NaN\<close> when all are;
  \<^enum> \<^verbatim>\<open>agged.dropna(how="all")\<close> drops the groups whose mean is \<open>NaN\<close>;
  \<^enum> \<^verbatim>\<open>unstack\<close> makes one row per index tuple that is left and one column per
    \<open>pcol\<close> value that is left, both sorted, with \<open>NaN\<close> where a pair has no group.

  The model covers the tables the program is written for: the labels \<open>index\<close>,
  \<open>pcol\<close> and \<open>vcol\<close> name different columns, and \<open>pcol\<close> holds strings (column
  labels are strings here). Outside of that the result is \<open>OutsideModel\<close>, which is
  not a Python exception: it says that the model does not tell what pandas does.
  A value column that is not numeric makes the mean raise \<open>TypeError\<close>; the program
  converts the column before the call.
\<close>

type_synonym observation = "cell list \<times> cell \<times> rat option"

definition numeric_value :: "cell \<Rightarrow> rat option" where
  "numeric_value c = (case c of Num x \<Rightarrow> Some x | _ \<Rightarrow> None)"

definition observations :: "dataframe \<Rightarrow> string list \<Rightarrow> string \<Rightarrow> string \<Rightarrow> observation list" where
  "observations df index pcol vcol =
     map (\<lambda>r. (map (cell_at (columns df) r) index,
               cell_at (columns df) r pcol,
               numeric_value (cell_at (columns df) r vcol)))
       (rows df)"

text \<open>The rows that \<open>groupby\<close> keeps, and the groups they form.\<close>

definition grouped :: "observation list \<Rightarrow> observation list" where
  "grouped obs = filter (\<lambda>(k, p, v). NA \<notin> set k \<and> p \<noteq> NA) obs"

definition nanmean :: "rat option list \<Rightarrow> rat option" where
  "nanmean vs =
     (let xs = List.map_filter (\<lambda>v. v) vs
      in if xs = [] then None else Some (sum_list xs / of_nat (length xs)))"

definition group_mean :: "observation list \<Rightarrow> cell list \<times> cell \<Rightarrow> rat option" where
  "group_mean obs g = nanmean (map (\<lambda>(k, p, v). v) (filter (\<lambda>(k, p, v). (k, p) = g) obs))"

text \<open>The groups that are left after \<^verbatim>\<open>agged.dropna(how="all")\<close>.\<close>

definition agged :: "observation list \<Rightarrow> (cell list \<times> cell) list" where
  "agged obs =
     filter (\<lambda>g. group_mean (grouped obs) g \<noteq> None)
       (remdups (map (\<lambda>(k, p, v). (k, p)) (grouped obs)))"

text \<open>
  The order of the index: numbers by value, dates by day, strings character by
  character; a column holds one kind of value.
\<close>

definition cell_key :: "cell \<Rightarrow> nat \<times> rat \<times> string" where
  "cell_key c =
     (case c of Num x \<Rightarrow> (0, x, []) | Day d \<Rightarrow> (1, of_int d, []) | Str s \<Rightarrow> (2, 0, s)
      | NA \<Rightarrow> (3, 0, []))"

definition sort_keys :: "cell list list \<Rightarrow> cell list list" where
  "sort_keys ks = sort_key (map cell_key) ks"

definition is_Str :: "cell \<Rightarrow> bool" where
  "is_Str c = (case c of Str s \<Rightarrow> True | _ \<Rightarrow> False)"

definition label_of :: "cell \<Rightarrow> string" where
  "label_of c = (case c of Str s \<Rightarrow> s | _ \<Rightarrow> [])"

text \<open>The index tuples and the column labels of the pivot, both sorted.\<close>

definition pivot_keys :: "observation list \<Rightarrow> cell list list" where
  "pivot_keys obs = sort_keys (remdups (map fst (agged obs)))"

definition pivot_labels :: "observation list \<Rightarrow> string list" where
  "pivot_labels obs = sort (remdups (map (label_of \<circ> snd) (agged obs)))"

definition pivot_cell :: "observation list \<Rightarrow> cell list \<Rightarrow> string \<Rightarrow> cell" where
  "pivot_cell obs k p = num_cell (group_mean (grouped obs) (k, Str p))"

text \<open>A table with a row index: what \<open>pivot_table\<close> returns.\<close>

record pivoted =
  index_names :: "string list"
  index_keys :: "cell list list"
  frame :: dataframe

definition pivot_table :: "dataframe \<Rightarrow> string list \<Rightarrow> string \<Rightarrow> string \<Rightarrow> error + pivoted" where
  "pivot_table df index pcol vcol =
     (case filter (\<lambda>c. c \<notin> set (columns df)) (vcol # index @ [pcol]) of
        c # _ \<Rightarrow> Inl (KeyError c)
      | [] \<Rightarrow>
         (let obs = observations df index pcol vcol in
          if \<not> distinct (index @ [pcol, vcol]) then Inl OutsideModel
          else if \<not> list_all (\<lambda>(k, p, v). is_Str p) (grouped obs) then Inl OutsideModel
          else if \<not> list_all (\<lambda>r. is_numeric (cell_at (columns df) r vcol)) (rows df)
            then Inl TypeError
          else
            Inr \<lparr>index_names = index,
                 index_keys = pivot_keys obs,
                 frame = \<lparr>columns = pivot_labels obs,
                          rows = map (\<lambda>k. map (pivot_cell obs k) (pivot_labels obs))
                                   (pivot_keys obs)\<rparr>\<rparr>))"

text \<open>
  \<^verbatim>\<open>.reset_index()\<close>: the index levels become the first columns; \<open>ValueError\<close>
  when a level has the name of a column (the levels are inserted last to first).
\<close>

definition reset_index :: "pivoted \<Rightarrow> error + dataframe" where
  "reset_index pv =
     (case filter (\<lambda>c. c \<in> set (columns (frame pv))) (rev (index_names pv)) of
        c # _ \<Rightarrow> Inl (ValueError (''cannot insert '' @ c @ '', already exists''))
      | [] \<Rightarrow>
          Inr \<lparr>columns = index_names pv @ columns (frame pv),
               rows = map (\<lambda>(k, r). k @ r) (zip (index_keys pv) (rows (frame pv)))\<rparr>)"

subsection \<open>\<^verbatim>\<open>main\<close>\<close>

text \<open>
  The model of \<^verbatim>\<open>main\<close> starts at line 81, with the table that
  \<^verbatim>\<open>pd.read_csv\<close> returned, and ends with what is handed to the writer. The answers
  to the dialogs are an argument (\<open>None\<close> is a cancelled dialog), and so is whether
  \<^verbatim>\<open>import openpyxl\<close> succeeds.
\<close>

record answers =
  date_answer :: "string option"
  value_answer :: "string option"
  label_style :: "string option"
  export_mode :: "string option"
  have_openpyxl :: bool

record roles =
  date_col :: string
  value_col :: string
  index_cols :: "string list"
  group_cols :: "string list"

text \<open>The dialogs after which \<^verbatim>\<open>main\<close> returns without output.\<close>

datatype stop = MissingDate | MissingValue | MissingPollutantName | Dependency

text \<open>
  Lines 84 to 118: the columns in their roles.
  \<^verbatim>\<open>
  date_col = coalesce_cols(df, ["Date", "Date Local", "Date Observed", "Date GMT"], default=None)
  if date_col is None:
      date_col = simpledialog.askstring(...)
      if not date_col or date_col not in df.columns:
          messagebox.showerror("Missing date", ...); return
  ...
  value_col = "Arithmetic Mean" if "Arithmetic Mean" in df.columns else None
  if value_col is None:
      value_col = simpledialog.askstring(...)
      if not value_col or value_col not in df.columns:
          messagebox.showerror("Missing value", ...); return
  lat_col  = coalesce_cols(df, ["Latitude", "Site Latitude", "Lat"], default=None)
  lon_col  = coalesce_cols(df, ["Longitude", "Site Longitude", "Lon", "Long"], default=None)
  state_c  = coalesce_cols(df, ["State Name", "State"], default=None)
  county_c = coalesce_cols(df, ["County Name", "County"], default=None)
  city_c   = coalesce_cols(df, ["City Name", "City"], default=None)
  site_num = coalesce_cols(df, ["Site Num", "Site Number"], default=None)
  index_cols = [c for c in [state_c, county_c, city_c, site_num, lat_col, lon_col, date_col] if c]
  if "Pollutant Name" not in df.columns:
      messagebox.showerror("Missing", ...); return
  \<close>
\<close>

definition location_cols :: "dataframe \<Rightarrow> string list" where
  "location_cols df =
     (let lat_col = coalesce_cols df [''Latitude'', ''Site Latitude'', ''Lat''] None;
          lon_col = coalesce_cols df [''Longitude'', ''Site Longitude'', ''Lon'', ''Long''] None;
          state_c = coalesce_cols df [''State Name'', ''State''] None;
          county_c = coalesce_cols df [''County Name'', ''County''] None;
          city_c = coalesce_cols df [''City Name'', ''City''] None;
          site_num = coalesce_cols df [''Site Num'', ''Site Number''] None
      in concat (map (\<lambda>c. case c of Some s \<Rightarrow> (if s = [] then [] else [s]) | None \<Rightarrow> [])
                   [state_c, county_c, city_c, site_num, lat_col, lon_col]))"

text \<open>A column named in a dialog: \<open>None\<close> when the dialog was cancelled or left
  empty (\<open>not answer\<close>) or names no column.\<close>

definition asked_column :: "dataframe \<Rightarrow> string option \<Rightarrow> string option" where
  "asked_column df answer =
     (case answer of
        Some c \<Rightarrow> (if c = [] \<or> c \<notin> set (columns df) then None else Some c)
      | None \<Rightarrow> None)"

definition resolve_date :: "dataframe \<Rightarrow> answers \<Rightarrow> string option" where
  "resolve_date df a =
     (case coalesce_cols df [''Date'', ''Date Local'', ''Date Observed'', ''Date GMT''] None of
        Some c \<Rightarrow> Some c
      | None \<Rightarrow> asked_column df (date_answer a))"

definition resolve_value :: "dataframe \<Rightarrow> answers \<Rightarrow> string option" where
  "resolve_value df a =
     (if ''Arithmetic Mean'' \<in> set (columns df) then Some ''Arithmetic Mean''
      else asked_column df (value_answer a))"

definition resolve_columns :: "dataframe \<Rightarrow> answers \<Rightarrow> stop + roles" where
  "resolve_columns df a =
     (case resolve_date df a of
        None \<Rightarrow> Inl MissingDate
      | Some dc \<Rightarrow>
         (case resolve_value df a of
            None \<Rightarrow> Inl MissingValue
          | Some vc \<Rightarrow>
              (if ''Pollutant Name'' \<notin> set (columns df) then Inl MissingPollutantName
               else Inr \<lparr>date_col = dc, value_col = vc,
                         index_cols = location_cols df @ [dc],
                         group_cols = location_cols df\<rparr>)))"

text \<open>
  Line 92: \<^verbatim>\<open>df[date_col] = pd.to_datetime(df[date_col], errors="coerce").dt.date\<close>.
\<close>

definition date_cell :: "int option \<Rightarrow> cell" where
  "date_cell d = (case d of Some n \<Rightarrow> Day n | None \<Rightarrow> NA)"

definition normalize_dates :: "pylib \<Rightarrow> string \<Rightarrow> dataframe \<Rightarrow> dataframe" where
  "normalize_dates L col df =
     set_col df col (map (\<lambda>r. date_cell (to_date L (cell_at (columns df) r col))) (rows df))"

text \<open>
  Lines 121 to 129: the value column made numeric and rounded, then the pivot.
  \<^verbatim>\<open>
  df[value_col] = pd.to_numeric(df[value_col], errors="coerce").round(3)
  wide = df.pivot_table(index=index_cols, columns="Pollutant Name",
                        values=value_col, aggfunc="mean").reset_index()
  \<close>
\<close>

definition main_pivot :: "pylib \<Rightarrow> dataframe \<Rightarrow> string list \<Rightarrow> string \<Rightarrow> error + dataframe" where
  "main_pivot L df index vcol =
     (case getitem df vcol of
        Inl e \<Rightarrow> Inl e
      | Inr vals \<Rightarrow>
         (case pivot_table (set_col df vcol (map (numeric_round3 L) vals)) index
                 ''Pollutant Name'' vcol of
            Inl e \<Rightarrow> Inl e
          | Inr pv \<Rightarrow> reset_index pv))"

text \<open>
  What the pivot sees of the long table: for each row its index tuple, its pollutant
  and its value after line 121.
\<close>

definition long_observations ::
  "pylib \<Rightarrow> dataframe \<Rightarrow> string list \<Rightarrow> string \<Rightarrow> observation list"
where
  "long_observations L df index vcol =
     map (\<lambda>r. (map (cell_at (columns df) r) index,
               cell_at (columns df) r ''Pollutant Name'',
               round3_opt (to_numeric L (cell_at (columns df) r vcol))))
       (rows df)"


text \<open>
  Lines 131 to 147: the labels and the order of the columns.
  \<^verbatim>\<open>
  use_abc = (label_style or "").strip().upper() != "NAME"
  pollutants = [c for c in wide.columns if c not in index_cols]
  label_map = make_pollutant_labels(pollutants, use_abc=use_abc)
  wide = wide.rename(columns=label_map)
  pollutant_cols = [label_map[p] for p in pollutants]
  front = [date_col] + pollutant_cols
  remaining = [c for c in wide.columns if c not in front]
  ordered_cols = [c for c in front if c in wide.columns] + remaining
  wide = wide[ordered_cols]
  \<close>
  A label that is also the name of an index column would give the renamed table two
  columns of one name; that table is outside the model.
\<close>

definition py_upper :: "string \<Rightarrow> string" where
  "py_upper s =
     map (\<lambda>c. if CHR ''a'' \<le> c \<and> c \<le> CHR ''z'' then char_of (of_char c - (32::nat)) else c) s"

definition rename_columns :: "dataframe \<Rightarrow> (string \<times> string) list \<Rightarrow> dataframe" where
  "rename_columns df label_map =
     df\<lparr>columns := map (\<lambda>c. case map_of label_map c of Some l \<Rightarrow> l | None \<Rightarrow> c) (columns df)\<rparr>"

definition label_and_order ::
  "dataframe \<Rightarrow> string list \<Rightarrow> string \<Rightarrow> string option \<Rightarrow> error + dataframe"
where
  "label_and_order wide0 index dc style =
     (let use_abc = (py_upper (py_strip (case style of Some s \<Rightarrow> s | None \<Rightarrow> [])) \<noteq> ''NAME'');
          pollutants = filter (\<lambda>c. c \<notin> set index) (columns wide0)
      in case make_pollutant_labels pollutants use_abc of
           Inl e \<Rightarrow> Inl e
         | Inr label_map \<Rightarrow>
            (let wide = rename_columns wide0 label_map in
             if \<not> distinct (columns wide) then Inl OutsideModel
             else
              (case filter (\<lambda>p. map_of label_map p = None) pollutants of
                 p # _ \<Rightarrow> Inl (KeyError p)
               | [] \<Rightarrow>
                  (let pollutant_cols =
                         map (\<lambda>p. case map_of label_map p of Some l \<Rightarrow> l | None \<Rightarrow> p) pollutants;
                       front = dc # pollutant_cols;
                       remaining = filter (\<lambda>c. c \<notin> set front) (columns wide);
                       ordered_cols = filter (\<lambda>c. c \<in> set (columns wide)) front @ remaining
                   in select_cols wide ordered_cols))))"

definition main_wide :: "pylib \<Rightarrow> dataframe \<Rightarrow> answers \<Rightarrow> roles \<Rightarrow> error + dataframe" where
  "main_wide L df a ro =
     (case main_pivot L (normalize_dates L (date_col ro) df) (index_cols ro) (value_col ro) of
        Inl e \<Rightarrow> Inl e
      | Inr wide0 \<Rightarrow> label_and_order wide0 (index_cols ro) (date_col ro) (label_style a))"

text \<open>
  Lines 166 to 179: one sheet per location.
  \<^verbatim>\<open>
  group_cols = [c for c in [state_c, county_c, city_c, site_num, lat_col, lon_col] if c]
  if not group_cols:
      wide.to_excel(writer, sheet_name="All", index=False)
  else:
      for keys, sub in wide.groupby(group_cols):
          if not isinstance(keys, tuple):
              keys = (keys,)
          name_parts = [str(k) for k in keys if pd.notna(k)]
          sheet_name = "-".join(name_parts)[:31] if name_parts else "Sheet1"
          sub.to_excel(writer, sheet_name=sheet_name or "Sheet1", index=False)
  \<close>
  \<^verbatim>\<open>wide.groupby(group_cols)\<close> yields the groups in the order of their keys and,
  as in the pivot, has no group for a row with a missing value in a key. The result
  is the list of the calls of \<^verbatim>\<open>to_excel\<close>, in order: the sheet name and the
  sub-table of each. What the workbook keeps when two calls have one sheet name is
  left to the writer.
\<close>

fun join_with :: "string \<Rightarrow> string list \<Rightarrow> string" where
  "join_with sep [] = []"
| "join_with sep [s] = s"
| "join_with sep (s # t # ss) = s @ sep @ join_with sep (t # ss)"

definition sheet_name :: "pylib \<Rightarrow> cell list \<Rightarrow> string" where
  "sheet_name L keys =
     (let name_parts = map (str_of L) (filter (\<lambda>k. k \<noteq> NA) keys);
          name = (if name_parts = [] then ''Sheet1'' else take 31 (join_with ''-'' name_parts))
      in if name = [] then ''Sheet1'' else name)"

definition groupby :: "dataframe \<Rightarrow> string list \<Rightarrow> (cell list \<times> dataframe) list" where
  "groupby df cols =
     map (\<lambda>k. (k, df\<lparr>rows := filter (\<lambda>r. row_key df cols r = k) (rows df)\<rparr>))
       (sort_keys (remdups (filter (\<lambda>k. NA \<notin> set k) (map (row_key df cols) (rows df)))))"

definition main_partition :: "pylib \<Rightarrow> dataframe \<Rightarrow> string list \<Rightarrow> (string \<times> dataframe) list" where
  "main_partition L wide gcols =
     (if gcols = [] then [(''All'', wide)]
      else map (\<lambda>(keys, sub). (sheet_name L keys, sub)) (groupby wide gcols))"

text \<open>The whole of \<^verbatim>\<open>main\<close> from line 81 on.\<close>

datatype outcome =
    Stopped stop
  | Raised error
  | SavedCSV dataframe
  | SavedXLSX "(string \<times> dataframe) list"

definition main :: "pylib \<Rightarrow> dataframe \<Rightarrow> answers \<Rightarrow> outcome" where
  "main L df a =
     (case resolve_columns df a of
        Inl s \<Rightarrow> Stopped s
      | Inr ro \<Rightarrow>
         (case main_wide L df a ro of
            Inl e \<Rightarrow> Raised e
          | Inr wide \<Rightarrow>
             (if py_upper (py_strip (case export_mode a of
                                       Some s \<Rightarrow> (if s = [] then ''CSV'' else s)
                                     | None \<Rightarrow> ''CSV'')) = ''XLSX''
              then (if have_openpyxl a then SavedXLSX (main_partition L wide (group_cols ro))
                    else Stopped Dependency)
              else SavedCSV wide)))"

section \<open>Examples\<close>

text \<open>
  An instance of the library for the examples: it reads the handful of number and date
  literals that occur in them, as Python and pandas do, and nothing else; it prints a
  string as it is and a missing value as \<open>nan\<close>; it searches a keyword literally
  without regard to case, which is what the regular-expression search does for a
  keyword of letters, digits and blanks.
\<close>

fun starts_with :: "string \<Rightarrow> string \<Rightarrow> bool" where
  "starts_with [] s = True"
| "starts_with (c # k) [] = False"
| "starts_with (c # k) (d # s) = (c = d \<and> starts_with k s)"

fun contains_literal :: "string \<Rightarrow> string \<Rightarrow> bool" where
  "contains_literal k [] = (k = [])"
| "contains_literal k (d # s) = (starts_with k (d # s) \<or> contains_literal k s)"

definition example_lib :: pylib where
  "example_lib =
     \<lparr>float_of = map_of [(''39.290'', Fin (3929 / 100)), (''-76.610'', Fin (- (7661 / 100)))],
      to_numeric_str = map_of [(''9.8067'', 98067 / 10000)],
      to_date = (\<lambda>c. case c of
                   Str s \<Rightarrow> map_of [(''2025-01-10'', 739261), (''2025-01-11'', 739262)] s
                 | Day d \<Rightarrow> Some d
                 | _ \<Rightarrow> None),
      str_contains = (\<lambda>k. Some (\<lambda>s. contains_literal (py_lower k) (py_lower s))),
      str_of = (\<lambda>c. case c of Str s \<Rightarrow> s | _ \<Rightarrow> ''nan''),
      round_object_raises = True\<rparr>"



definition site_table :: dataframe where
  "site_table =
     \<lparr>columns = [''City Name'', ''Latitude'', ''Longitude''],
      rows = [[Str ''Baltimore'', Num (392904 / 10000), Num (- (766101 / 10000))],
              [Str ''Des Moines'', Num (416 / 10), Num (- (936 / 10))]]\<rparr>"

definition ungeolocated_table :: dataframe where
  "ungeolocated_table =
     \<lparr>columns = [''City Name'', ''Latitude''],
      rows = [[Str ''Baltimore'', Num (392904 / 10000)],
              [Str ''Des Moines'', Num (416 / 10)]]\<rparr>"

definition nine_names :: "string list" where
  "nine_names = [''CO'', ''NO'', ''NO2'', ''O3'', ''PM1'', ''PM10'', ''PM2.5'', ''Pb'', ''SO2'']"

definition long_table :: dataframe where
  "long_table =
     \<lparr>columns = [''Sample ID'', ''Pollutant Name'', ''State Name'', ''City Name'', ''Date'',
                 ''Arithmetic Mean''],
      rows = [[Str ''NO2-0001'', Str ''NO2'', Str ''Maryland'', Str ''Baltimore'',
               Str ''2025-01-10'', Num (152 / 10)],
              [Str ''PM25-0001'', Str ''PM2.5'', Str ''Maryland'', Str ''Baltimore'',
               Str ''2025-01-10'', Num (981 / 100)],
              [Str ''PM25-0002'', Str ''PM2.5'', Str ''Iowa'', Str ''Des Moines'',
               Str ''2025-01-10'', Num 10],
              [Str ''PM25-0003'', Str ''PM2.5'', Str ''Iowa'', Str ''Des Moines'',
               Str ''2025-01-10'', Num 12],
              [Str ''PM25-0004'', Str ''PM2.5'', Str ''Iowa'', Str ''Des Moines'',
               Str ''2025-01-11'', Num 8]]\<rparr>"

definition xlsx_answers :: answers where
  "xlsx_answers =
     \<lparr>date_answer = None, value_answer = None, label_style = Some ''ABC'',
      export_mode = Some ''xlsx'', have_openpyxl = True\<rparr>"

definition long_roles :: roles where
  "long_roles =
     \<lparr>date_col = ''Date'', value_col = ''Arithmetic Mean'',
      index_cols = [''State Name'', ''City Name'', ''Date''],
      group_cols = [''State Name'', ''City Name'']\<rparr>"

definition long_wide :: dataframe where
  "long_wide =
     \<lparr>columns = [''Date'', ''Pollutant A (NO2)'', ''Pollutant B (PM2.5)'', ''State Name'',
                 ''City Name''],
      rows = [[Day 739261, NA, Num 11, Str ''Iowa'', Str ''Des Moines''],
              [Day 739262, NA, Num 8, Str ''Iowa'', Str ''Des Moines''],
              [Day 739261, Num (76 / 5), Num (981 / 100), Str ''Maryland'',
               Str ''Baltimore'']]\<rparr>"

text \<open>
  A long table after line 92 (the dates are dates): its second row has no state, its
  third row no state and no date.
\<close>

definition gap_table :: dataframe where
  "gap_table =
     \<lparr>columns = [''State Name'', ''Date'', ''Pollutant Name'', ''Arithmetic Mean''],
      rows = [[Str ''Maryland'', Day 739261, Str ''NO2'', Num (152 / 10)],
              [NA, Day 739261, Str ''NO2'', Num 20],
              [NA, NA, Str ''NO2'', Num 30]]\<rparr>"

definition gap_wide :: dataframe where
  "gap_wide =
     \<lparr>columns = [''State Name'', ''Date'', ''NO2''],
      rows = [[Str ''Maryland'', Day 739261, Num (76 / 5)]]\<rparr>"

text \<open>Two observations of one pollutant at one place on one day.\<close>

definition duplicate_table :: dataframe where
  "duplicate_table =
     \<lparr>columns = [''City Name'', ''Date'', ''Pollutant Name'', ''Arithmetic Mean''],
      rows = [[Str ''Baltimore'', Day 739261, Str ''PM2.5'', Num 10],
              [Str ''Baltimore'', Day 739261, Str ''PM2.5'', Num 12]]\<rparr>"

definition duplicate_wide :: dataframe where
  "duplicate_wide =
     \<lparr>columns = [''City Name'', ''Date'', ''PM2.5''],
      rows = [[Str ''Baltimore'', Day 739261, Num 11]]\<rparr>"

section \<open>Properties of rounding\<close>






section \<open>Properties of the labeler\<close>

lemma update_fresh: "k \<notin> fst ` set al \<Longrightarrow> AList.update k v al = al @ [(k, v)]"
  by (induction al) auto

lemma label_loop_abc:
  "distinct ps \<Longrightarrow> set ps \<inter> fst ` set labels = {} \<Longrightarrow> i + length ps \<le> length abc \<Longrightarrow>
   label_loop True (enumerate i ps) labels =
     Inr (labels @ map (\<lambda>(j, p). (p, abc_label j p)) (enumerate i ps))"
proof (induction ps arbitrary: i labels)
  case Nil
  then show ?case by simp
next
  case (Cons p ps)
  have fresh: "p \<notin> fst ` set labels"
    using Cons.prems(2) by auto
  have "set ps \<inter> fst ` set (labels @ [(p, abc_label i p)]) = {}"
    using Cons.prems(1,2) by auto
  with Cons show ?case
    by (simp add: update_fresh [OF fresh])
qed

lemma label_loop_overflow:
  "i \<le> length abc \<Longrightarrow> length abc < i + length ps \<Longrightarrow>
   label_loop True (enumerate i ps) labels = Inl IndexError"
  by (induction ps arbitrary: i labels) auto

lemma label_loop_direct:
  "distinct ps \<Longrightarrow> set ps \<inter> fst ` set labels = {} \<Longrightarrow>
   label_loop False (enumerate i ps) labels = Inr (labels @ map (\<lambda>p. (p, p)) ps)"
proof (induction ps arbitrary: i labels)
  case Nil
  then show ?case by simp
next
  case (Cons p ps)
  have fresh: "p \<notin> fst ` set labels"
    using Cons.prems(2) by auto
  have "set ps \<inter> fst ` set (labels @ [(p, p)]) = {}"
    using Cons.prems(1,2) by auto
  with Cons show ?case
    by (simp add: update_fresh [OF fresh])
qed

lemma sort_same_set:
  fixes xs ys :: "string list"
  assumes "distinct xs" "distinct ys" "set xs = set ys"
  shows "sort xs = sort ys"
  using assms by (intro sorted_distinct_set_unique) simp_all

text \<open>
  \<^bold>\<open>C5.\<close> The Sequential labeler depends on the set of names only: two enumerations
  of the same distinct names give the same outcome. As long as the letters
  \<open>A\<close> to \<open>H\<close> suffice, that outcome is the mapping that gives the \<open>i\<close>-th name in
  ascending lexicographic order the label \<open>Pollutant <i-th letter> (<name>)\<close>.
\<close>

theorem make_pollutant_labels_deterministic:
  assumes "distinct xs" and "distinct ys" and "set xs = set ys"
  shows "make_pollutant_labels xs True = make_pollutant_labels ys True \<and>
         (length xs \<le> length abc \<longrightarrow>
            make_pollutant_labels xs True =
              Inr (map (\<lambda>(i, p). (p, abc_label i p)) (enumerate 0 (sort xs))))"
proof -
  have "make_pollutant_labels xs True = make_pollutant_labels ys True"
    by (simp add: make_pollutant_labels_def sort_same_set [OF assms])
  moreover have "make_pollutant_labels xs True =
      Inr (map (\<lambda>(i, p). (p, abc_label i p)) (enumerate 0 (sort xs)))"
    if "length xs \<le> length abc"
    using that assms(1) label_loop_abc [of "sort xs" "[]" 0]
    by (simp add: make_pollutant_labels_def)
  ultimately show ?thesis
    by blast
qed

theorem make_pollutant_labels_deterministic_witness:
  "distinct [''PM2.5'', ''NO2''] \<and> distinct [''NO2'', ''PM2.5''] \<and>
   set [''PM2.5'', ''NO2''] = set [''NO2'', ''PM2.5''] \<and>
   make_pollutant_labels [''PM2.5'', ''NO2''] True =
     Inr [(''NO2'', ''Pollutant A (NO2)''), (''PM2.5'', ''Pollutant B (PM2.5)'')] \<and>
   make_pollutant_labels [''NO2'', ''PM2.5''] True =
     Inr [(''NO2'', ''Pollutant A (NO2)''), (''PM2.5'', ''Pollutant B (PM2.5)'')]"
proof -
  have d: "distinct [''PM2.5'', ''NO2'']" "distinct [''NO2'', ''PM2.5'']"
    by simp_all
  have s: "set [''PM2.5'', ''NO2''] = set [''NO2'', ''PM2.5'']"
    by auto
  note both = make_pollutant_labels_deterministic [OF d s]
  have n: "length [''PM2.5'', ''NO2''] \<le> length abc"
    by (simp add: abc_def)
  have "sort [''PM2.5'', ''NO2''] = [''NO2'', ''PM2.5'']"
    by simp
  with both [THEN conjunct2, THEN mp, OF n]
  have r1: "make_pollutant_labels [''PM2.5'', ''NO2''] True =
      Inr [(''NO2'', ''Pollutant A (NO2)''), (''PM2.5'', ''Pollutant B (PM2.5)'')]"
    by (simp add: abc_label_def abc_def)
  with both [THEN conjunct1]
  have r2: "make_pollutant_labels [''NO2'', ''PM2.5''] True =
      Inr [(''NO2'', ''Pollutant A (NO2)''), (''PM2.5'', ''Pollutant B (PM2.5)'')]"
    by (simp only:)
  from d s r1 r2 show ?thesis
    by blast
qed

text \<open>
  \<^bold>\<open>C6.\<close> With more names than the eight letters \<open>A\<close> to \<open>H\<close>, the Sequential
  labeler fails: \<open>abc[i]\<close> raises \<open>IndexError\<close> at the ninth name (the failure the
  specification names \<open>TooManyPollutantsError\<close>). The Direct labeler succeeds for any
  number of distinct names and labels each name with itself.
\<close>

theorem make_pollutant_labels_limit:
  "length abc = 8 \<and>
   (length abc < length xs \<longrightarrow> make_pollutant_labels xs True = Inl IndexError) \<and>
   (distinct xs \<longrightarrow> make_pollutant_labels xs False = Inr (map (\<lambda>p. (p, p)) (sort xs)))"
proof -
  have "make_pollutant_labels xs True = Inl IndexError" if "length abc < length xs"
    using that label_loop_overflow [of 0 "sort xs" "[]"]
    by (simp add: make_pollutant_labels_def)
  moreover have "make_pollutant_labels xs False = Inr (map (\<lambda>p. (p, p)) (sort xs))"
    if "distinct xs"
    using that label_loop_direct [of "sort xs" "[]" 0]
    by (simp add: make_pollutant_labels_def)
  ultimately show ?thesis
    by (simp add: abc_def)
qed

theorem make_pollutant_labels_limit_witness:
  "length abc < length nine_names \<and> distinct nine_names \<and>
   make_pollutant_labels nine_names True = Inl IndexError \<and>
   make_pollutant_labels nine_names False =
     Inr [(''CO'', ''CO''), (''NO'', ''NO''), (''NO2'', ''NO2''), (''O3'', ''O3''),
          (''PM1'', ''PM1''), (''PM10'', ''PM10''), (''PM2.5'', ''PM2.5''), (''Pb'', ''Pb''),
          (''SO2'', ''SO2'')]"
proof -
  have n: "length abc < length nine_names"
    by (simp add: abc_def nine_names_def)
  have d: "distinct nine_names"
    by (simp add: nine_names_def)
  have "sort nine_names = nine_names"
    by (simp add: nine_names_def)
  with make_pollutant_labels_limit [of nine_names] n d show ?thesis
    by (simp add: nine_names_def)
qed

section \<open>Properties of the filter\<close>

text \<open>
  \<^bold>\<open>C1\<close> (as the code has it). A coordinate keyword that does not split into two
  floats makes \<^verbatim>\<open>filter_data\<close> open the error dialog and return the table it was
  given, unfiltered; nothing is raised to the caller.
\<close>

theorem filter_data_malformed_returns_input:
  assumes "parse_coordinates L keyword = Inl e"
    and "py_lower (py_strip keyword_type) = ''coordinates''"
  shows "filter_data L df (Some keyword_type) keyword = (Inr df, [invalid_coordinates])"
  using assms by (simp add: filter_data_def coordinates_filter_def)

lemma example_keyword_type: "py_lower (py_strip '' Coordinates'') = ''coordinates''"
  by code_simp

lemma parse_abc:
  "parse_coordinates example_lib ''abc'' = Inl (ValueError ''not enough values to unpack (expected 2, got 1)'')"
  by (simp add: parse_coordinates_def)

theorem filter_data_malformed_witness:
  "parse_coordinates example_lib ''abc'' = Inl (ValueError ''not enough values to unpack (expected 2, got 1)'') \<and>
   py_lower (py_strip '' Coordinates'') = ''coordinates'' \<and>
   filter_data example_lib site_table (Some '' Coordinates'') ''abc'' =
     (Inr site_table, [invalid_coordinates])"
  using filter_data_malformed_returns_input [OF parse_abc example_keyword_type, of site_table]
    parse_abc example_keyword_type
  by simp

text \<open>
  The claim as the specification words it (the malformed keyword is reported to the
  caller, who does not get the unfiltered table back) fails: here the keyword has no
  comma, and the caller receives the whole table.
\<close>

theorem filter_data_malformed_counterexample:
  "parse_coordinates example_lib ''39.290; -76.610'' =
     Inl (ValueError ''not enough values to unpack (expected 2, got 1)'') \<and>
   fst (filter_data example_lib site_table (Some ''coordinates'') ''39.290; -76.610'') =
     Inr site_table \<and>
   length (rows site_table) = 2"
proof -
  have k: "py_lower (py_strip ''coordinates'') = ''coordinates''"
    by code_simp
  have p: "parse_coordinates example_lib ''39.290; -76.610'' =
      Inl (ValueError ''not enough values to unpack (expected 2, got 1)'')"
    by (simp add: parse_coordinates_def)
  show ?thesis
    by (simp add: p filter_data_def k coordinates_filter_def site_table_def)
qed

text \<open>
  \<^bold>\<open>C10.\<close> On a table without a \<open>Latitude\<close> or without a \<open>Longitude\<close> column the
  coordinate filter returns the table unchanged for every keyword, well-formed or
  not: the failed column lookup ends in the same handler as a malformed keyword.
\<close>

theorem filter_data_missing_column_noop:
  assumes "''Latitude'' \<notin> set (columns df) \<or> ''Longitude'' \<notin> set (columns df)"
    and "py_lower (py_strip keyword_type) = ''coordinates''"
  shows "filter_data L df (Some keyword_type) keyword = (Inr df, [invalid_coordinates])"
  using assms
  by (auto simp add: filter_data_def coordinates_filter_def getitem_def
      split: sum.splits prod.splits)

theorem filter_data_missing_column_witness:
  "''Longitude'' \<notin> set (columns ungeolocated_table) \<and>
   parse_coordinates example_lib ''39.290, -76.610'' =
     Inr (Fin (3929 / 100), Fin (- (7661 / 100))) \<and>
   filter_data example_lib ungeolocated_table (Some '' Coordinates'') ''39.290, -76.610'' =
     (Inr ungeolocated_table, [invalid_coordinates])"
proof -
  have c: "''Latitude'' \<notin> set (columns ungeolocated_table) \<or>
           ''Longitude'' \<notin> set (columns ungeolocated_table)"
    by (simp add: ungeolocated_table_def)
  have p: "parse_coordinates example_lib ''39.290, -76.610'' =
      Inr (Fin (3929 / 100), Fin (- (7661 / 100)))"
    by code_simp
  have "''Longitude'' \<notin> set (columns ungeolocated_table)"
    by (simp add: ungeolocated_table_def)
  with filter_data_missing_column_noop [OF c example_keyword_type] p show ?thesis
    by simp
qed

section \<open>Properties of the annotator\<close>

lemma cell_at_map: "c \<in> set cs \<Longrightarrow> cell_at cs (map f cs) c = f c"
  by (simp add: cell_at_def map_of_zip_map)


















section \<open>Properties of the pivot\<close>

lemma cell_at_append_left:
  assumes "c \<in> set cs" "length k = length cs"
  shows "cell_at (cs @ ds) (k @ v) c = cell_at cs k c"
  using assms map_of_zip_is_Some [of cs k c]
  by (auto simp add: cell_at_def map_add_def split: option.splits)


lemma cell_at_Cons_other:
  "c \<noteq> c0 \<Longrightarrow> cell_at (c0 # cs) (x # k) c = cell_at cs k c"
  by (simp add: cell_at_def)

lemma map_cell_at_self:
  "distinct cs \<Longrightarrow> length k = length cs \<Longrightarrow> map (cell_at cs k) cs = k"
proof (induction cs arbitrary: k)
  case Nil
  then show ?case by simp
next
  case (Cons c cs)
  then obtain x k' where k: "k = x # k'" and l: "length k' = length cs"
    by (cases k) auto
  from Cons.prems have "map (cell_at (c # cs) (x # k')) cs = map (cell_at cs k') cs"
    by (intro map_cong) (auto intro!: cell_at_Cons_other)
  also have "\<dots> = k'"
    using Cons.IH [of k'] Cons.prems l by simp
  finally have "map (cell_at (c # cs) (x # k')) cs = k'" .
  moreover have "cell_at (c # cs) (x # k') c = x"
    by (simp add: cell_at_def)
  ultimately show ?case
    by (simp add: k)
qed

lemma zip_map_zip:
  "zip cols (map f (zip cols r)) = map (\<lambda>z. (fst z, f z)) (zip cols r)"
proof (induction cols arbitrary: r)
  case Nil
  then show ?case by simp
next
  case (Cons a cols)
  then show ?case by (cases r) auto
qed

lemma map_of_update_values:
  "map_of (map (\<lambda>z. (fst z, if fst z = c then v else snd z)) zs) d =
     (case map_of zs d of None \<Rightarrow> None | Some x \<Rightarrow> Some (if d = c then v else x))"
  by (induction zs) auto

lemma cell_at_set_col_row:
  "cell_at cols (map (\<lambda>(c', x). if c' = c then v else x) (zip cols r)) d =
     (if d = c then (if map_of (zip cols r) c = None then NA else v) else cell_at cols r d)"
  by (auto simp add: cell_at_def zip_map_zip map_of_update_values split_def split: option.splits)

lemma numeric_value_num_cell: "numeric_value (num_cell x) = x"
  by (cases x) (simp_all add: numeric_value_def num_cell_def)

lemma zip_map_self: "zip (map g xs) xs = map (\<lambda>x. (g x, x)) xs"
  by (induction xs) auto

lemma observations_after_round:
  assumes "vcol \<notin> set index" "vcol \<noteq> ''Pollutant Name''"
  shows "observations
           (set_col df vcol (map (numeric_round3 L) (map (\<lambda>r. cell_at (columns df) r vcol) (rows df))))
           index ''Pollutant Name'' vcol
         = long_observations L df index vcol"
proof -
  have v: "numeric_value (if map_of (zip (columns df) r) vcol = None then NA
                          else numeric_round3 L (cell_at (columns df) r vcol))
           = round3_opt (to_numeric L (cell_at (columns df) r vcol))" for r
  proof (cases "map_of (zip (columns df) r) vcol = None")
    case True
    then show ?thesis
      by (simp add: cell_at_def to_numeric_def round3_opt_def numeric_value_def)
  next
    case False
    then show ?thesis
      by (auto simp add: numeric_round3_def numeric_value_num_cell)
  qed
  have k: "map (cell_at (columns df)
                 (map (\<lambda>(c', x). if c' = vcol then u else x) (zip (columns df) r))) index
           = map (cell_at (columns df) r) index" for r u
    using assms(1) by (intro map_cong) (auto simp add: cell_at_set_col_row)
  show ?thesis
    using assms(2)
    by (simp add: observations_def long_observations_def set_col_def zip_map_self o_def
        cell_at_set_col_row v k)
qed

lemma zip_map_right: "zip xs (map f xs) = map (\<lambda>x. (x, f x)) xs"
  by (induction xs) auto

lemma main_pivot_Inr:
  assumes "main_pivot L df index vcol = Inr wide"
  shows "distinct (index @ [''Pollutant Name'', vcol])"
    and "list_all (\<lambda>(k, p, v). is_Str p) (grouped (long_observations L df index vcol))"
    and "set index \<inter> set (pivot_labels (long_observations L df index vcol)) = {}"
    and "wide = \<lparr>columns = index @ pivot_labels (long_observations L df index vcol),
                  rows = map (\<lambda>k. k @ map (pivot_cell (long_observations L df index vcol) k)
                                         (pivot_labels (long_observations L df index vcol)))
                           (pivot_keys (long_observations L df index vcol))\<rparr>"
proof -
  let ?df = "set_col df vcol (map (numeric_round3 L) (map (\<lambda>r. cell_at (columns df) r vcol) (rows df)))"
  from assms obtain pv where
    pv: "pivot_table ?df index ''Pollutant Name'' vcol = Inr pv" and r: "reset_index pv = Inr wide"
    by (auto simp add: main_pivot_def getitem_def split: if_splits sum.splits)
  from pv show d: "distinct (index @ [''Pollutant Name'', vcol])"
    by (auto simp add: pivot_table_def Let_def split: list.splits if_splits)
  then have o: "observations ?df index ''Pollutant Name'' vcol = long_observations L df index vcol"
    by (intro observations_after_round) auto
  from pv show "list_all (\<lambda>(k, p, v). is_Str p) (grouped (long_observations L df index vcol))"
    unfolding pivot_table_def Let_def o by (auto split: list.splits if_splits)
  from pv have p: "pv = \<lparr>index_names = index,
      index_keys = pivot_keys (long_observations L df index vcol),
      frame = \<lparr>columns = pivot_labels (long_observations L df index vcol),
          rows = map (\<lambda>k. map (pivot_cell (long_observations L df index vcol) k)
                           (pivot_labels (long_observations L df index vcol)))
                   (pivot_keys (long_observations L df index vcol))\<rparr>\<rparr>"
    unfolding pivot_table_def Let_def o by (auto split: list.splits if_splits)
  from r show "set index \<inter> set (pivot_labels (long_observations L df index vcol)) = {}"
    unfolding reset_index_def p by (auto simp add: filter_empty_conv split: list.splits)
  from r show "wide = \<lparr>columns = index @ pivot_labels (long_observations L df index vcol),
                  rows = map (\<lambda>k. k @ map (pivot_cell (long_observations L df index vcol) k)
                                         (pivot_labels (long_observations L df index vcol)))
                           (pivot_keys (long_observations L df index vcol))\<rparr>"
    unfolding reset_index_def p by (auto simp add: zip_map_right split: list.splits)
qed

lemma nanmean_None_iff: "nanmean vs = None \<longleftrightarrow> (\<forall>x. Some x \<notin> set vs)"
proof -
  have "List.map_filter (\<lambda>v. v) vs = [] \<longleftrightarrow> (\<forall>x. Some x \<notin> set vs)"
    by (induction vs) (auto simp add: List.map_filter_simps split: option.splits)
  then show ?thesis
    by (simp add: nanmean_def Let_def)
qed

lemma group_mean_None_iff:
  "group_mean obs (k, p) = None \<longleftrightarrow> (\<forall>x. (k, p, Some x) \<notin> set obs)"
  by (force simp add: group_mean_def nanmean_None_iff image_iff)

lemma in_grouped_iff:
  "(k, p, v) \<in> set (grouped obs) \<longleftrightarrow> (k, p, v) \<in> set obs \<and> NA \<notin> set k \<and> p \<noteq> NA"
  by (auto simp add: grouped_def)

lemma in_agged_iff:
  "(k, p) \<in> set (agged obs) \<longleftrightarrow> NA \<notin> set k \<and> p \<noteq> NA \<and> (\<exists>x. (k, p, Some x) \<in> set obs)"
proof -
  have a: "(k, p) \<in> set (agged obs) \<longleftrightarrow>
        group_mean (grouped obs) (k, p) \<noteq> None \<and>
        (k, p) \<in> (\<lambda>(k, p, v). (k, p)) ` set (grouped obs)"
    by (simp add: agged_def conj_commute)
  have b: "(k, p) \<in> (\<lambda>(k, p, v). (k, p)) ` set (grouped obs) \<longleftrightarrow>
        (\<exists>v. (k, p, v) \<in> set (grouped obs))"
    by force
  have "(k, p) \<in> set (agged obs) \<longleftrightarrow> (\<exists>x. (k, p, Some x) \<in> set (grouped obs))"
    unfolding a b group_mean_None_iff by blast
  then show ?thesis
    by (auto simp add: in_grouped_iff)
qed

lemma set_sort_keys [simp]: "set (sort_keys ks) = set ks"
  by (simp add: sort_keys_def)

lemma distinct_sort_keys [simp]: "distinct (sort_keys ks) = distinct ks"
  by (simp add: sort_keys_def)

lemma set_pivot_keys: "set (pivot_keys obs) = fst ` set (agged obs)"
  by (simp add: pivot_keys_def)

lemma distinct_pivot_keys: "distinct (pivot_keys obs)"
  by (simp add: pivot_keys_def)

lemma in_pivot_keys_iff:
  "k \<in> set (pivot_keys obs) \<longleftrightarrow> NA \<notin> set k \<and> (\<exists>p x. p \<noteq> NA \<and> (k, p, Some x) \<in> set obs)"
proof -
  have "k \<in> set (pivot_keys obs) \<longleftrightarrow> (\<exists>p. (k, p) \<in> set (agged obs))"
    by (auto simp add: set_pivot_keys image_iff) force
  then show ?thesis
    by (auto simp add: in_agged_iff)
qed

lemma set_pivot_labels: "set (pivot_labels obs) = (label_of \<circ> snd) ` set (agged obs)"
  by (simp add: pivot_labels_def)

lemma distinct_pivot_labels: "distinct (pivot_labels obs)"
  by (simp add: pivot_labels_def)

lemma long_observations_key_length:
  "(k, p, v) \<in> set (long_observations L df index vcol) \<Longrightarrow> length k = length index"
  by (auto simp add: long_observations_def)

lemma pivot_keys_length:
  "k \<in> set (pivot_keys (long_observations L df index vcol)) \<Longrightarrow> length k = length index"
  by (auto simp add: in_pivot_keys_iff dest: long_observations_key_length)


lemma wide_row_key_of:
  assumes "main_pivot L df index vcol = Inr wide"
    and "k \<in> set (pivot_keys (long_observations L df index vcol))"
  shows "row_key wide index
           (k @ map (pivot_cell (long_observations L df index vcol) k)
                  (pivot_labels (long_observations L df index vcol))) = k"
proof -
  let ?obs = "long_observations L df index vcol"
  note s = main_pivot_Inr [OF assms(1)]
  have d: "distinct index"
    using s(1) by simp
  have l: "length k = length index"
    using assms(2) by (rule pivot_keys_length)
  have "map (cell_at (index @ pivot_labels ?obs) (k @ map (pivot_cell ?obs k) (pivot_labels ?obs))) index
      = map (cell_at index k) index"
    using l by (intro map_cong) (auto simp add: cell_at_append_left)
  with d l show ?thesis
    by (simp add: row_key_def s(4) map_cell_at_self)
qed

lemma wide_row_keys:
  assumes "main_pivot L df index vcol = Inr wide"
  shows "map (row_key wide index) (rows wide) = pivot_keys (long_observations L df index vcol)"
  using wide_row_key_of [OF assms]
  by (simp add: main_pivot_Inr(4) [OF assms] o_def map_idI)


lemma in_long_observations_iff:
  "(k, p, v) \<in> set (long_observations L df index vcol) \<longleftrightarrow>
   (\<exists>r\<in>set (rows df). row_key df index r = k \<and> cell_at (columns df) r ''Pollutant Name'' = p \<and>
       round3_opt (to_numeric L (cell_at (columns df) r vcol)) = v)"
  by (auto simp add: long_observations_def row_key_def)




lemma is_numeric_numeric_round3: "is_numeric (numeric_round3 L c)"
  by (cases "round3_opt (to_numeric L c)") (simp_all add: numeric_round3_def num_cell_def is_numeric_def)

lemma is_numeric_NA: "is_numeric NA"
  by (simp add: is_numeric_def)

lemma columns_set_col: "columns (set_col df c vs) = columns df"
  by (simp add: set_col_def)

text \<open>
  The pivot returns a table whenever the index columns, the pollutant column and the
  value column are different columns of the table, the pollutant names are strings
  and none of them is the name of an index column.
\<close>

lemma main_pivot_succeeds:
  assumes c: "set (vcol # index @ [''Pollutant Name'']) \<subseteq> set (columns df)"
    and d: "distinct (index @ [''Pollutant Name'', vcol])"
    and s: "\<And>r. r \<in> set (rows df) \<Longrightarrow>
              cell_at (columns df) r ''Pollutant Name'' = NA \<or>
              (\<exists>s. cell_at (columns df) r ''Pollutant Name'' = Str s \<and> s \<notin> set index)"
  shows "\<exists>wide. main_pivot L df index vcol = Inr wide"
proof -
  let ?vals = "map (\<lambda>r. cell_at (columns df) r vcol) (rows df)"
  let ?df = "set_col df vcol (map (numeric_round3 L) ?vals)"
  let ?obs = "long_observations L df index vcol"
  have g: "getitem df vcol = Inr ?vals"
    using c by (simp add: getitem_def)
  have o: "observations ?df index ''Pollutant Name'' vcol = ?obs"
    using d by (intro observations_after_round) auto
  have m: "filter (\<lambda>c. c \<notin> set (columns ?df)) (vcol # index @ [''Pollutant Name'']) = []"
    using c by (auto simp add: columns_set_col filter_empty_conv)
  have str: "list_all (\<lambda>(k, p, v). is_Str p) (grouped ?obs)"
    using s by (fastforce simp add: list_all_iff in_grouped_iff in_long_observations_iff is_Str_def)
  have num: "list_all (\<lambda>r. is_numeric (cell_at (columns ?df) r vcol)) (rows ?df)"
    by (auto simp add: list_all_iff set_col_def zip_map_self cell_at_set_col_row
        is_numeric_numeric_round3 is_numeric_NA o_def)
  have p: "pivot_table ?df index ''Pollutant Name'' vcol =
      Inr \<lparr>index_names = index, index_keys = pivot_keys ?obs,
           frame = \<lparr>columns = pivot_labels ?obs,
                    rows = map (\<lambda>k. map (pivot_cell ?obs k) (pivot_labels ?obs)) (pivot_keys ?obs)\<rparr>\<rparr>"
    unfolding pivot_table_def m o Let_def using d str num by simp
  have "set index \<inter> set (pivot_labels ?obs) = {}"
  proof -
    have "l \<notin> set index" if "l \<in> set (pivot_labels ?obs)" for l
    proof -
      from that obtain k q where "(k, q) \<in> set (agged ?obs)" "l = label_of q"
        by (auto simp add: set_pivot_labels)
      then obtain x where "(k, q, Some x) \<in> set ?obs" "q \<noteq> NA"
        by (auto simp add: in_agged_iff)
      then obtain r where "r \<in> set (rows df)" "cell_at (columns df) r ''Pollutant Name'' = q"
        by (auto simp add: in_long_observations_iff)
      with s [of r] \<open>q \<noteq> NA\<close> \<open>l = label_of q\<close> show ?thesis
        by (auto simp add: label_of_def)
    qed
    then show ?thesis by auto
  qed
  then have "filter (\<lambda>c. c \<in> set (pivot_labels ?obs)) (rev index) = []"
    by (auto simp add: filter_empty_conv)
  then obtain wide where "reset_index
      \<lparr>index_names = index, index_keys = pivot_keys ?obs,
       frame = \<lparr>columns = pivot_labels ?obs,
                rows = map (\<lambda>k. map (pivot_cell ?obs k) (pivot_labels ?obs)) (pivot_keys ?obs)\<rparr>\<rparr>
      = Inr wide"
    by (simp add: reset_index_def)
  then have "main_pivot L df index vcol = Inr wide"
    by (simp only: main_pivot_def g p sum.case)
  then show ?thesis ..
qed

lemma gap_pivot:
  "main_pivot example_lib gap_table [''State Name'', ''Date''] ''Arithmetic Mean'' = Inr gap_wide"
  by code_simp

lemma duplicate_pivot:
  "main_pivot example_lib duplicate_table [''City Name'', ''Date''] ''Arithmetic Mean'' =
     Inr duplicate_wide"
  by code_simp


lemma long_main_wide:
  "main_wide example_lib long_table xlsx_answers long_roles = Inr long_wide"
  by code_simp

text \<open>
  \<^bold>\<open>C2\<close> (as the code has it). The pivot groups the rows by the full tuple of the
  grouping columns, and the wide table has one row for exactly the tuples that are
  complete: a tuple is a row of the output if and only if it has no missing value
  and some input row with that tuple has a pollutant name and a value that is a
  number after line 121. A row with a missing value in a grouping column forms no
  group (\<open>groupby\<close> drops it), and neither does a group whose values are all missing.
\<close>

theorem pivot_rows_are_complete_groups:
  assumes "main_pivot L df index vcol = Inr wide"
  shows "set (map (row_key wide index) (rows wide)) =
         {k. NA \<notin> set k \<and>
             (\<exists>r\<in>set (rows df). row_key df index r = k \<and>
                cell_at (columns df) r ''Pollutant Name'' \<noteq> NA \<and>
                round3_opt (to_numeric L (cell_at (columns df) r vcol)) \<noteq> None)}"
proof -
  have "k \<in> set (pivot_keys (long_observations L df index vcol)) \<longleftrightarrow>
        NA \<notin> set k \<and>
        (\<exists>r\<in>set (rows df). row_key df index r = k \<and>
           cell_at (columns df) r ''Pollutant Name'' \<noteq> NA \<and>
           round3_opt (to_numeric L (cell_at (columns df) r vcol)) \<noteq> None)" for k
    unfolding in_pivot_keys_iff in_long_observations_iff by blast
  then show ?thesis
    unfolding wide_row_keys [OF assms] by blast
qed

theorem pivot_rows_are_complete_groups_witness:
  "main_pivot example_lib gap_table [''State Name'', ''Date''] ''Arithmetic Mean'' = Inr gap_wide \<and>
   {k. NA \<notin> set k \<and>
       (\<exists>r\<in>set (rows gap_table). row_key gap_table [''State Name'', ''Date''] r = k \<and>
          cell_at (columns gap_table) r ''Pollutant Name'' \<noteq> NA \<and>
          round3_opt (to_numeric example_lib (cell_at (columns gap_table) r ''Arithmetic Mean''))
            \<noteq> None)}
     = {[Str ''Maryland'', Day 739261]}"
proof -
  have "set (map (row_key gap_wide [''State Name'', ''Date'']) (rows gap_wide)) =
      {[Str ''Maryland'', Day 739261]}"
    by code_simp
  with pivot_rows_are_complete_groups [OF gap_pivot] gap_pivot show ?thesis
    by (simp only:)
qed

text \<open>
  The claim as the specification words it (a row with missing grouping values still
  forms an output group) fails: of the three rows of \<open>gap_table\<close>, the one without a
  state and the one without state and date leave no row in the wide table, neither
  after the pivot nor in what \<^verbatim>\<open>main\<close> saves.
\<close>

theorem pivot_missing_key_counterexample:
  "length (rows gap_table) = 3 \<and>
   main_pivot example_lib gap_table [''State Name'', ''Date''] ''Arithmetic Mean'' =
     Inr \<lparr>columns = [''State Name'', ''Date'', ''NO2''],
          rows = [[Str ''Maryland'', Day 739261, Num (76 / 5)]]\<rparr> \<and>
   main example_lib gap_table
     \<lparr>date_answer = None, value_answer = None, label_style = Some ''NAME'',
      export_mode = Some ''CSV'', have_openpyxl = True\<rparr> =
     SavedCSV \<lparr>columns = [''Date'', ''NO2'', ''State Name''],
               rows = [[Day 739261, Num (76 / 5), Str ''Maryland'']]\<rparr>"
  by code_simp



section \<open>Properties of the wide table and its partition\<close>


lemma cell_at_rename:
  assumes "distinct (map f cols)" "c \<in> set cols" "f c = c"
  shows "cell_at (map f cols) r c = cell_at cols r c"
  using assms
proof (induction cols arbitrary: r)
  case Nil
  then show ?case by simp
next
  case (Cons a cols)
  show ?case
  proof (cases r)
    case Nil
    then show ?thesis by (simp add: cell_at_def)
  next
    case (Cons x r')
    show ?thesis
    proof (cases "a = c")
      case True
      then show ?thesis
        using Cons.prems \<open>r = x # r'\<close> by (simp add: cell_at_def)
    next
      case False
      with Cons.prems have c: "c \<in> set cols" by simp
      then have "f c \<in> set (map f cols)" by simp
      with Cons.prems have "f a \<noteq> c" by auto
      with False Cons.prems c Cons.IH [of r'] \<open>r = x # r'\<close> show ?thesis
        by (simp add: cell_at_def)
    qed
  qed
qed

lemma label_loop_keys:
  "label_loop b ps labels = Inr m \<Longrightarrow> fst ` set m \<subseteq> snd ` set ps \<union> fst ` set labels"
proof (induction ps arbitrary: labels)
  case Nil
  then show ?case by auto
next
  case (Cons ip ps)
  obtain i p where ip: "ip = (i, p)" by (cases ip)
  from Cons.prems obtain v where "label_loop b ps (AList.update p v labels) = Inr m"
    by (auto simp add: ip split: if_splits)
  from Cons.IH [OF this] show ?case
    by (auto simp add: ip dom_update)
qed

lemma make_pollutant_labels_keys:
  "make_pollutant_labels xs b = Inr m \<Longrightarrow> fst ` set m \<subseteq> set xs"
proof -
  assume "make_pollutant_labels xs b = Inr m"
  then have "fst ` set m \<subseteq> snd ` set (enumerate 0 (sort xs))"
    using label_loop_keys [of b "enumerate 0 (sort xs)" "[]" m]
    by (simp add: make_pollutant_labels_def)
  also have "snd ` set (enumerate 0 (sort xs)) = set xs"
    by (simp flip: set_map)
  finally show ?thesis .
qed

text \<open>The final wide table in terms of the pivoted one.\<close>

lemma label_and_order_Inr:
  assumes "label_and_order wide0 index dc style = Inr wide"
  shows "\<exists>ren. (\<forall>c\<in>set index. ren c = c) \<and>
    distinct (map ren (columns wide0)) \<and>
    set (map ren (columns wide0)) \<subseteq> set (columns wide) \<and>
    rows wide = map (\<lambda>r. map (cell_at (map ren (columns wide0)) r) (columns wide)) (rows wide0)"
proof -
  let ?pollutants = "filter (\<lambda>c. c \<notin> set index) (columns wide0)"
  from assms obtain label_map where
    lm: "make_pollutant_labels ?pollutants
           (py_upper (py_strip (case style of Some s \<Rightarrow> s | None \<Rightarrow> [])) \<noteq> ''NAME'') = Inr label_map"
    by (auto simp add: label_and_order_def Let_def split: sum.splits)
  let ?ren = "\<lambda>c. case map_of label_map c of Some l \<Rightarrow> l | None \<Rightarrow> c"
  let ?cols = "map ?ren (columns wide0)"
  let ?front = "dc # map ?ren ?pollutants"
  let ?ordered = "filter (\<lambda>c. c \<in> set ?cols) ?front @ filter (\<lambda>c. c \<notin> set ?front) ?cols"
  have 1: "?ren c = c" if "c \<in> set index" for c
  proof -
    from that have "c \<notin> set ?pollutants" by simp
    with make_pollutant_labels_keys [OF lm] have "c \<notin> fst ` set label_map" by auto
    then have "map_of label_map c = None"
      by (simp add: map_of_eq_None_iff)
    then show ?thesis by simp
  qed
  from assms lm have d: "distinct ?cols"
    by (auto simp add: label_and_order_def Let_def rename_columns_def split: sum.splits if_splits)
  from assms lm d have s: "select_cols (rename_columns wide0 label_map) ?ordered = Inr wide"
    by (auto simp add: label_and_order_def Let_def rename_columns_def split: sum.splits if_splits list.splits)
  then have w: "wide = \<lparr>columns = ?ordered,
      rows = map (\<lambda>r. map (cell_at ?cols r) ?ordered) (rows wide0)\<rparr>"
    by (auto simp add: select_cols_def rename_columns_def split: list.splits)
  have 3: "set ?cols \<subseteq> set (columns wide)"
    unfolding w by auto
  have 4: "rows wide = map (\<lambda>r. map (cell_at ?cols r) (columns wide)) (rows wide0)"
    unfolding w by simp
  from 1 have "\<forall>c\<in>set index. ?ren c = c"
    by blast
  with d 3 4 have "(\<forall>c\<in>set index. ?ren c = c) \<and> distinct ?cols \<and>
      set ?cols \<subseteq> set (columns wide) \<and>
      rows wide = map (\<lambda>r. map (cell_at ?cols r) (columns wide)) (rows wide0)"
    by (intro conjI)
  then show ?thesis
    by (rule exI [where x = ?ren])
qed



lemma groupby_keys_distinct:
  "distinct (map fst (groupby df cols))"
  by (simp add: groupby_def o_def)




text \<open>Labelling and reordering keep the index cells of every row.\<close>

lemma final_row_keys:
  assumes p: "main_pivot L df0 index vcol = Inr wide0"
    and l: "label_and_order wide0 index dc style = Inr wide"
    and g: "set cs \<subseteq> set index"
  shows "map (row_key wide cs) (rows wide) = map (row_key wide0 cs) (rows wide0)"
proof -
  note s = main_pivot_Inr [OF p]
  obtain ren where ren: "\<And>c. c \<in> set index \<Longrightarrow> ren c = c"
    and d: "distinct (map ren (columns wide0))"
    and sub: "set (map ren (columns wide0)) \<subseteq> set (columns wide)"
    and rw: "rows wide = map (\<lambda>r. map (cell_at (map ren (columns wide0)) r) (columns wide)) (rows wide0)"
    using label_and_order_Inr [OF l] by blast
  have "cell_at (columns wide) (map (cell_at (map ren (columns wide0)) r0) (columns wide)) c
        = cell_at (columns wide0) r0 c" if "c \<in> set cs" for c r0
  proof -
    from that g have ci: "c \<in> set index" by auto
    then have c0: "c \<in> set (columns wide0)"
      by (simp add: s(4))
    then have "ren c \<in> set (map ren (columns wide0))"
      by simp
    with ren [OF ci] sub have cw: "c \<in> set (columns wide)"
      by auto
    have "cell_at (columns wide) (map (cell_at (map ren (columns wide0)) r0) (columns wide)) c
        = cell_at (map ren (columns wide0)) r0 c"
      using cw by (rule cell_at_map)
    also have "\<dots> = cell_at (columns wide0) r0 c"
      using d c0 ren [OF ci] by (rule cell_at_rename)
    finally show ?thesis .
  qed
  then show ?thesis
    by (simp add: rw row_key_def o_def)
qed




text \<open>
  \<^bold>\<open>C8.\<close> No two rows of the wide table have the same tuple in the grouping
  columns, neither in the table that the pivot returns nor in the table that
  \<^verbatim>\<open>main\<close> writes after labelling and reordering the columns.
\<close>

theorem pivot_rows_have_distinct_keys:
  "(main_pivot L df index vcol = Inr wide0 \<longrightarrow>
      distinct (map (row_key wide0 index) (rows wide0))) \<and>
   (main_wide L df a ro = Inr wide \<longrightarrow>
      distinct (map (row_key wide (index_cols ro)) (rows wide)))"
proof (intro conjI impI)
  assume "main_pivot L df index vcol = Inr wide0"
  then show "distinct (map (row_key wide0 index) (rows wide0))"
    by (simp add: wide_row_keys distinct_pivot_keys)
next
  assume "main_wide L df a ro = Inr wide"
  then obtain w0 where
    p: "main_pivot L (normalize_dates L (date_col ro) df) (index_cols ro) (value_col ro) = Inr w0"
    and l: "label_and_order w0 (index_cols ro) (date_col ro) (label_style a) = Inr wide"
    by (auto simp add: main_wide_def split: sum.splits)
  have "map (row_key wide (index_cols ro)) (rows wide) = map (row_key w0 (index_cols ro)) (rows w0)"
    using p l by (rule final_row_keys) simp
  then show "distinct (map (row_key wide (index_cols ro)) (rows wide))"
    by (simp add: wide_row_keys [OF p] distinct_pivot_keys)
qed

theorem pivot_rows_have_distinct_keys_witness:
  "main_pivot example_lib duplicate_table [''City Name'', ''Date''] ''Arithmetic Mean'' =
     Inr duplicate_wide \<and>
   length (rows duplicate_table) = 2 \<and>
   distinct (map (row_key duplicate_wide [''City Name'', ''Date'']) (rows duplicate_wide)) \<and>
   main_wide example_lib long_table xlsx_answers long_roles = Inr long_wide \<and>
   distinct (map (row_key long_wide (index_cols long_roles)) (rows long_wide))"
proof -
  note t = pivot_rows_have_distinct_keys
  have "length (rows duplicate_table) = 2"
    by (simp add: duplicate_table_def)
  with t [THEN conjunct1, THEN mp, OF duplicate_pivot]
    t [THEN conjunct2, THEN mp, OF long_main_wide] duplicate_pivot long_main_wide
  show ?thesis
    by (simp only: simp_thms)
qed



end
